theory Spec2Isabelle
  imports Main "HOL-Library.Word"
begin

section \<open>Python values, errors and objects\<close>

text \<open>
  The module \<^verbatim>\<open>shortuuidfield/fields.py\<close> declares two subclasses of Django's
  \<^verbatim>\<open>CharField\<close>. The values an attribute of a model instance or a keyword argument
  can hold are Python objects; the ones the field code distinguishes are modelled here.
  Python 2's \<^verbatim>\<open>str\<close> and \<^verbatim>\<open>unicode\<close> are both \<open>PyStr\<close>, so the conversions
  \<^verbatim>\<open>unicode(...)\<close> and \<^verbatim>\<open>str(...)\<close> of the source are the identity on the model.
\<close>

datatype pyval = PyNone | PyBool bool | PyInt int | PyStr string

text \<open>The truth value Python's \<^verbatim>\<open>not value\<close> tests.\<close>

fun truthy :: "pyval \<Rightarrow> bool" where
  "truthy PyNone = False"
| "truthy (PyBool b) = b"
| "truthy (PyInt i) = (i \<noteq> 0)"
| "truthy (PyStr s) = (s \<noteq> [])"

datatype error = AttributeError | ImportError | OtherError string

type_synonym kwargs = "string \<rightharpoonup> pyval"

text \<open>A model instance is its attribute dictionary.\<close>

type_synonym model_instance = "string \<rightharpoonup> pyval"

definition getattr :: "model_instance \<Rightarrow> string \<Rightarrow> error + pyval" where
  "getattr obj name = (case obj name of None \<Rightarrow> Inl AttributeError | Some v \<Rightarrow> Inr v)"

definition setattr :: "model_instance \<Rightarrow> string \<Rightarrow> pyval \<Rightarrow> model_instance" where
  "setattr obj name v = obj(name \<mapsto> v)"

section \<open>The base field\<close>

text \<open>
  \<^verbatim>\<open>CharField\<close> is Django's, not this repository's. What the field code relies on is
  kept: the arguments its initialiser receives, and the attribute name the ORM binds the
  field to (\<^verbatim>\<open>self.attname\<close>).
\<close>

record CharField =
  init_args :: "pyval list"
  init_kwargs :: kwargs
  attname :: string

text \<open>
  Modelled from the spec: the base initialiser \<^verbatim>\<open>CharField.__init__(*args, **kwargs)\<close>,
  which is missing from the sources. It receives the standard field-declaration
  parameters; the model records them on the object and derives nothing from them.
\<close>

definition CharField_init ::
    "'a CharField_scheme \<Rightarrow> pyval list \<Rightarrow> kwargs \<Rightarrow> 'a CharField_scheme" where
  "CharField_init self args kwargs = self\<lparr>init_args := args, init_kwargs := kwargs\<rparr>"

text \<open>
  Modelled from the spec: the base field's own pre-persist resolution
  \<^verbatim>\<open>CharField.pre_save(model_instance, add)\<close>, missing from the sources, "which reads
  the record's current attribute value".
\<close>

definition CharField_pre_save ::
    "'a CharField_scheme \<Rightarrow> model_instance \<Rightarrow> bool \<Rightarrow> error + pyval" where
  "CharField_pre_save self model_instance add = getattr model_instance (attname self)"

section \<open>Base57 encoding\<close>

text \<open>
  Modelled from the spec: the library \<^verbatim>\<open>shortuuid\<close> is missing from the sources. The
  glossary describes its encoding as "a positional encoding of an integer (typically a
  128-bit UUID) into a string using a 57-character alphabet, chosen to avoid visually
  ambiguous characters; produces a fixed 22-character string for a 128-bit input". The
  alphabet is the digits and letters without 0, 1, I, O and l; the digits are produced
  least significant first, padded with the alphabet's first character to 22 and reversed.
\<close>

definition alphabet :: string where
  "alphabet = ''23456789ABCDEFGHJKLMNPQRSTUVWXYZabcdefghijkmnopqrstuvwxyz''"

text \<open>
  Modelled from the spec: the positional encoding of a number in the alphabet, least
  significant digit first, as the loop
  \<^verbatim>\<open>while number: number, digit = divmod(number, alpha_len); output += alphabet[digit]\<close>.
\<close>

function int_to_string :: "nat \<Rightarrow> string" where
  "int_to_string number =
     (if number = 0 then []
      else alphabet ! (number mod length alphabet) # int_to_string (number div length alphabet))"
  by pat_completeness auto
termination
  by (relation "measure id") (auto simp: alphabet_def)

declare int_to_string.simps [simp del]

text \<open>
  Modelled from the spec: \<^verbatim>\<open>shortuuid.encode(uuid)\<close>. A UUID is its 128-bit integer.
\<close>

definition encode :: "128 word \<Rightarrow> string" where
  "encode u =
     (let output = int_to_string (unat u);
          remainder = 22 - length output
      in rev (output @ replicate remainder (alphabet ! 0)))"

text \<open>
  Modelled from the spec: \<^verbatim>\<open>shortuuid.uuid()\<close> encodes a fresh \<^verbatim>\<open>uuid.uuid4()\<close>. The
  random 128-bit value drawn by the call is the argument \<open>u\<close>.
\<close>

definition shortuuid_uuid :: "128 word \<Rightarrow> string" where
  "shortuuid_uuid u = encode u"

section \<open>ShortUUIDField\<close>

record ShortUUIDField = CharField +
  auto :: bool

text \<open>
  \<^verbatim>\<open>__init__(self, auto=True, *args, **kwargs)\<close>: an argument left out by the caller is
  \<open>None\<close> and takes the default of the signature.
\<close>

definition ShortUUIDField_init ::
    "ShortUUIDField \<Rightarrow> bool option \<Rightarrow> pyval list \<Rightarrow> kwargs \<Rightarrow> ShortUUIDField" where
  "ShortUUIDField_init self auto_arg args kwargs =
     (let auto_v = (case auto_arg of None \<Rightarrow> True | Some a \<Rightarrow> a);
          self = self\<lparr>ShortUUIDField.auto := auto_v\<rparr>;
          kwargs = kwargs(''max_length'' \<mapsto> PyInt 22);
          kwargs = (if auto_v
                    then (kwargs(''editable'' \<mapsto> PyBool False))(''blank'' \<mapsto> PyBool True)
                    else kwargs)
      in CharField_init self args kwargs)"

text \<open>
  \<^verbatim>\<open>pre_save(self, model_instance, add)\<close> returns the value and leaves the instance
  mutated; the model returns both, or the error the base resolution raised.
\<close>

definition ShortUUIDField_pre_save ::
    "ShortUUIDField \<Rightarrow> model_instance \<Rightarrow> bool \<Rightarrow> 128 word \<Rightarrow> error + pyval \<times> model_instance" where
  "ShortUUIDField_pre_save self model_instance add u =
     (case CharField_pre_save self model_instance add of
        Inl e \<Rightarrow> Inl e
      | Inr value \<Rightarrow>
          if ShortUUIDField.auto self \<and> \<not> truthy value
          then (let value = PyStr (shortuuid_uuid u)
                in Inr (value, setattr model_instance (attname self) value))
          else Inr (value, model_instance))"

text \<open>
  \<^verbatim>\<open>formfield(self, **kwargs)\<close>: Python's \<^verbatim>\<open>None\<close> is \<open>None\<close>. The base field's
  standard form-field construction is Django's and is the parameter \<open>super_formfield\<close>.
\<close>

definition ShortUUIDField_formfield ::
    "(ShortUUIDField \<Rightarrow> kwargs \<Rightarrow> 'f) \<Rightarrow> ShortUUIDField \<Rightarrow> kwargs \<Rightarrow> 'f option" where
  "ShortUUIDField_formfield super_formfield self kwargs =
     (if ShortUUIDField.auto self then None else Some (super_formfield self kwargs))"

section \<open>PrefixShortUUIDField\<close>

record PrefixShortUUIDField = CharField +
  auto :: bool
  prefix_str :: string

definition PrefixShortUUIDField_init ::
    "PrefixShortUUIDField \<Rightarrow> bool option \<Rightarrow> string option \<Rightarrow> pyval list \<Rightarrow> kwargs
     \<Rightarrow> PrefixShortUUIDField" where
  "PrefixShortUUIDField_init self auto_arg prefix_arg args kwargs =
     (let auto_v = (case auto_arg of None \<Rightarrow> True | Some a \<Rightarrow> a);
          prefix_v = (case prefix_arg of None \<Rightarrow> ''uu-'' | Some p \<Rightarrow> p);
          self = self\<lparr>PrefixShortUUIDField.auto := auto_v\<rparr>;
          self = self\<lparr>prefix_str := prefix_v\<rparr>;
          kwargs = kwargs(''max_length'' \<mapsto> PyInt (int (length prefix_v) + 8));
          kwargs = (if auto_v
                    then (kwargs(''editable'' \<mapsto> PyBool False))(''blank'' \<mapsto> PyBool True)
                    else kwargs)
      in CharField_init self args kwargs)"

definition PrefixShortUUIDField_pre_save ::
    "PrefixShortUUIDField \<Rightarrow> model_instance \<Rightarrow> bool \<Rightarrow> 128 word
     \<Rightarrow> error + pyval \<times> model_instance" where
  "PrefixShortUUIDField_pre_save self model_instance add u =
     (case CharField_pre_save self model_instance add of
        Inl e \<Rightarrow> Inl e
      | Inr value \<Rightarrow>
          if PrefixShortUUIDField.auto self \<and> \<not> truthy value
          then (let value = PyStr (prefix_str self @ take 8 (encode u))
                in Inr (value, setattr model_instance (attname self) value))
          else Inr (value, model_instance))"

definition PrefixShortUUIDField_formfield ::
    "(PrefixShortUUIDField \<Rightarrow> kwargs \<Rightarrow> 'f) \<Rightarrow> PrefixShortUUIDField \<Rightarrow> kwargs \<Rightarrow> 'f option" where
  "PrefixShortUUIDField_formfield super_formfield self kwargs =
     (if PrefixShortUUIDField.auto self then None else Some (super_formfield self kwargs))"

section \<open>Repeated saves\<close>

text \<open>
  The persistence layer calls the hook once per save of the record, each time on the
  instance the previous save left. \<open>calls\<close> gives each save's insert flag and the random
  value its generation would draw.
\<close>

fun ShortUUIDField_saves ::
    "ShortUUIDField \<Rightarrow> model_instance \<Rightarrow> (bool \<times> 128 word) list
     \<Rightarrow> error + pyval list \<times> model_instance" where
  "ShortUUIDField_saves self model_instance [] = Inr ([], model_instance)"
| "ShortUUIDField_saves self model_instance ((add, u) # calls) =
     (case ShortUUIDField_pre_save self model_instance add u of
        Inl e \<Rightarrow> Inl e
      | Inr (v, model_instance') \<Rightarrow>
          (case ShortUUIDField_saves self model_instance' calls of
             Inl e \<Rightarrow> Inl e
           | Inr (vs, model_instance'') \<Rightarrow> Inr (v # vs, model_instance'')))"

fun PrefixShortUUIDField_saves ::
    "PrefixShortUUIDField \<Rightarrow> model_instance \<Rightarrow> (bool \<times> 128 word) list
     \<Rightarrow> error + pyval list \<times> model_instance" where
  "PrefixShortUUIDField_saves self model_instance [] = Inr ([], model_instance)"
| "PrefixShortUUIDField_saves self model_instance ((add, u) # calls) =
     (case PrefixShortUUIDField_pre_save self model_instance add u of
        Inl e \<Rightarrow> Inl e
      | Inr (v, model_instance') \<Rightarrow>
          (case PrefixShortUUIDField_saves self model_instance' calls of
             Inl e \<Rightarrow> Inl e
           | Inr (vs, model_instance'') \<Rightarrow> Inr (v # vs, model_instance'')))"

section \<open>Module initialisation\<close>

text \<open>
  The module ends with
  \<^verbatim>\<open>try: from south.modelsinspector import add_introspection_rules; ...
  except ImportError: pass\<close>.
  South is an optional package: \<open>import_south\<close> is the outcome of the import, the error
  it raises or the function \<^verbatim>\<open>add_introspection_rules(rules, patterns)\<close>, which acts
  on South's registry of patterns and may raise. A computation is the error it raised,
  if any, and the registry it left.
\<close>

type_synonym registry = "string list"

type_synonym add_rules = "pyval list \<Rightarrow> string list \<Rightarrow> registry \<Rightarrow> error option \<times> registry"

definition ShortUUIDField_pattern :: string where
  "ShortUUIDField_pattern =
     ''^shortuuidfield'' @ [CHR 0x5C] @ ''.fields'' @ [CHR 0x5C] @ ''.ShortUUIDField''"

definition PrefixShortUUIDField_pattern :: string where
  "PrefixShortUUIDField_pattern =
     ''^prefixshortuuidfield'' @ [CHR 0x5C] @ ''.fields'' @ [CHR 0x5C]
       @ ''.PrefixShortUUIDField''"

definition try_body :: "error + add_rules \<Rightarrow> registry \<Rightarrow> error option \<times> registry" where
  "try_body import_south reg =
     (case import_south of
        Inl e \<Rightarrow> (Some e, reg)
      | Inr add_introspection_rules \<Rightarrow>
          (case add_introspection_rules [] [ShortUUIDField_pattern] reg of
             (Some e, reg') \<Rightarrow> (Some e, reg')
           | (None, reg') \<Rightarrow>
               add_introspection_rules [] [PrefixShortUUIDField_pattern] reg'))"

definition module_init :: "error + add_rules \<Rightarrow> registry \<Rightarrow> error option \<times> registry" where
  "module_init import_south reg =
     (case try_body import_south reg of
        (Some e, reg') \<Rightarrow> if e = ImportError then (None, reg') else (Some e, reg')
      | (None, reg') \<Rightarrow> (None, reg'))"

section \<open>Properties of the encoding\<close>

lemma length_alphabet: "length alphabet = 57"
  by (simp add: alphabet_def)

lemma distinct_alphabet: "distinct alphabet"
  by (simp add: alphabet_def)

lemma int_to_string_alphabet: "set (int_to_string n) \<subseteq> set alphabet"
proof (induction n rule: int_to_string.induct)
  case (1 number)
  show ?case
  proof (cases "number = 0")
    case True
    then show ?thesis by (simp add: int_to_string.simps)
  next
    case False
    have "number mod length alphabet < length alphabet"
      by (simp add: length_alphabet)
    then have "alphabet ! (number mod length alphabet) \<in> set alphabet"
      by (rule nth_mem)
    with False 1 show ?thesis
      by (subst int_to_string.simps) simp
  qed
qed

lemma int_to_string_length: "n < 57 ^ k \<Longrightarrow> length (int_to_string n) \<le> k"
proof (induction k arbitrary: n)
  case 0
  then show ?case by (simp add: int_to_string.simps)
next
  case (Suc k)
  show ?case
  proof (cases "n = 0")
    case True
    then show ?thesis by (simp add: int_to_string.simps)
  next
    case False
    from Suc.prems have "n div 57 < 57 ^ k"
      by (simp add: less_mult_imp_div_less mult.commute)
    then have "length (int_to_string (n div 57)) \<le> k"
      by (rule Suc.IH)
    with False show ?thesis
      by (subst int_to_string.simps) (simp add: length_alphabet)
  qed
qed

lemma uuid_int_bound: "unat (u :: 128 word) < 57 ^ 22"
proof -
  have "unat u < 2 ^ 128"
    using unsigned_less [of u] by simp
  also have "(2::nat) ^ 128 \<le> 57 ^ 22"
    by simp
  finally show ?thesis .
qed

lemma length_encode: "length (encode u) = 22"
proof -
  have "length (int_to_string (unat u)) \<le> 22"
    by (rule int_to_string_length [OF uuid_int_bound])
  then show ?thesis
    by (simp add: encode_def Let_def)
qed

lemma set_encode: "set (encode u) \<subseteq> set alphabet"
proof -
  have "alphabet ! 0 \<in> set alphabet"
    by (simp add: alphabet_def)
  with int_to_string_alphabet [of "unat u"] show ?thesis
    by (auto simp: encode_def Let_def)
qed

lemma encode_57: "encode 57 = ''2222222222222222222232''"
  by code_simp

section \<open>Generation by the plain field\<close>

text \<open>
  C1. When the field was declared with \<^verbatim>\<open>auto\<close> true and the value the base
  resolution reads from the record is empty (\<^verbatim>\<open>None\<close>, the empty string, or any
  other false value), \<^verbatim>\<open>ShortUUIDField.pre_save\<close> generates the base57 encoding of the
  random 128-bit value \<open>u\<close>, stores it in the record's attribute \<^verbatim>\<open>attname\<close> and
  returns it: reading the attribute after the call gives the returned value, and no other
  attribute changes.
\<close>

theorem ShortUUIDField_pre_save_generates:
  assumes "ShortUUIDField.auto self"
    and "CharField_pre_save self model_instance add = Inr value"
    and "\<not> truthy value"
  shows "ShortUUIDField_pre_save self model_instance add u =
           Inr (PyStr (encode u), model_instance(attname self \<mapsto> PyStr (encode u)))
         \<and> getattr (model_instance(attname self \<mapsto> PyStr (encode u))) (attname self) =
           Inr (PyStr (encode u))"
  using assms
  by (simp add: ShortUUIDField_pre_save_def shortuuid_uuid_def setattr_def getattr_def Let_def)

theorem ShortUUIDField_pre_save_generates_witness:
  "ShortUUIDField_pre_save
     \<lparr>init_args = [], init_kwargs = Map.empty, attname = ''uuid'', ShortUUIDField.auto = True\<rparr>
     [''uuid'' \<mapsto> PyNone] True 57 =
       Inr (PyStr ''2222222222222222222232'', [''uuid'' \<mapsto> PyStr ''2222222222222222222232''])
   \<and> getattr [''uuid'' \<mapsto> PyStr ''2222222222222222222232''] ''uuid'' =
       Inr (PyStr ''2222222222222222222232'')"
  using ShortUUIDField_pre_save_generates
    [of "\<lparr>init_args = [], init_kwargs = Map.empty, attname = ''uuid'', ShortUUIDField.auto = True\<rparr>"
        "[''uuid'' \<mapsto> PyNone]" True PyNone 57]
  by (simp add: CharField_pre_save_def getattr_def encode_57)

text \<open>
  C4. When \<^verbatim>\<open>auto\<close> is true and the resolved value is empty,
  \<^verbatim>\<open>ShortUUIDField.pre_save\<close> returns and stores a non-empty string of length 22
  whose characters all belong to the base57 alphabet, which has 57 distinct characters.
\<close>

theorem ShortUUIDField_generated_shape:
  assumes "ShortUUIDField.auto self"
    and "CharField_pre_save self model_instance add = Inr value"
    and "\<not> truthy value"
  shows "\<exists>v model_instance'.
           ShortUUIDField_pre_save self model_instance add u = Inr (PyStr v, model_instance')
           \<and> model_instance' (attname self) = Some (PyStr v)
           \<and> v \<noteq> [] \<and> length v = 22 \<and> set v \<subseteq> set alphabet
           \<and> length alphabet = 57 \<and> distinct alphabet"
proof -
  have "length (encode u) = 22" by (rule length_encode)
  moreover from this have "encode u \<noteq> []" by auto
  moreover have "set (encode u) \<subseteq> set alphabet" by (rule set_encode)
  ultimately show ?thesis
    using assms
    by (simp add: ShortUUIDField_pre_save_def shortuuid_uuid_def setattr_def Let_def
        length_alphabet distinct_alphabet)
qed

theorem ShortUUIDField_generated_shape_witness:
  "\<exists>v model_instance'.
     ShortUUIDField_pre_save
       \<lparr>init_args = [], init_kwargs = Map.empty, attname = ''uuid'', ShortUUIDField.auto = True\<rparr>
       [''uuid'' \<mapsto> PyStr ''''] False 1 = Inr (PyStr v, model_instance')
     \<and> model_instance' ''uuid'' = Some (PyStr v)
     \<and> v \<noteq> [] \<and> length v = 22 \<and> set v \<subseteq> set alphabet
     \<and> length alphabet = 57 \<and> distinct alphabet"
  using ShortUUIDField_generated_shape
    [of "\<lparr>init_args = [], init_kwargs = Map.empty, attname = ''uuid'', ShortUUIDField.auto = True\<rparr>"
        "[''uuid'' \<mapsto> PyStr '''']" False "PyStr ''''" 1]
  by (simp add: CharField_pre_save_def getattr_def)

section \<open>Generation by the prefixed field\<close>

lemma PrefixShortUUIDField_pre_save_example:
  "PrefixShortUUIDField_pre_save
       \<lparr>init_args = [], init_kwargs = Map.empty, attname = ''uuid'',
          PrefixShortUUIDField.auto = True, prefix_str = ''uu-''\<rparr>
       [''uuid'' \<mapsto> PyNone] True 57 = Inr (PyStr ''uu-22222222'', [''uuid'' \<mapsto> PyStr ''uu-22222222''])"
  by (simp add: PrefixShortUUIDField_pre_save_def CharField_pre_save_def getattr_def setattr_def encode_57 Let_def)

text \<open>
  C3. When \<^verbatim>\<open>auto\<close> is true and the resolved value is empty,
  \<^verbatim>\<open>PrefixShortUUIDField.pre_save\<close> returns and stores a string that starts with the
  configured prefix; what follows the prefix has length 8 and consists of characters of
  the base57 alphabet, so the whole value has length \<open>length prefix + 8\<close>.
\<close>

theorem PrefixShortUUIDField_generated_shape:
  assumes "PrefixShortUUIDField.auto self"
    and "CharField_pre_save self model_instance add = Inr value"
    and "\<not> truthy value"
  shows "\<exists>v model_instance'.
           PrefixShortUUIDField_pre_save self model_instance add u = Inr (PyStr v, model_instance')
           \<and> model_instance' (attname self) = Some (PyStr v)
           \<and> take (length (prefix_str self)) v = prefix_str self
           \<and> length (drop (length (prefix_str self)) v) = 8
           \<and> set (drop (length (prefix_str self)) v) \<subseteq> set alphabet
           \<and> length v = length (prefix_str self) + 8"
proof -
  have len: "length (take 8 (encode u)) = 8"
    by (simp add: length_encode)
  have "set (take 8 (encode u)) \<subseteq> set (encode u)"
    by (rule set_take_subset)
  also have "\<dots> \<subseteq> set alphabet"
    by (rule set_encode)
  finally have "set (take 8 (encode u)) \<subseteq> set alphabet" .
  with len assms show ?thesis
    by (simp add: PrefixShortUUIDField_pre_save_def setattr_def Let_def)
qed

theorem PrefixShortUUIDField_generated_shape_witness:
  "\<exists>v model_instance'.
     PrefixShortUUIDField_pre_save
       \<lparr>init_args = [], init_kwargs = Map.empty, attname = ''uuid'',
          PrefixShortUUIDField.auto = True, prefix_str = ''uu-''\<rparr>
       [''uuid'' \<mapsto> PyNone] True 57 = Inr (PyStr v, model_instance')
     \<and> model_instance' ''uuid'' = Some (PyStr v)
     \<and> take 3 v = ''uu-''
     \<and> length (drop 3 v) = 8
     \<and> set (drop 3 v) \<subseteq> set alphabet
     \<and> length v = 11"
  using PrefixShortUUIDField_generated_shape
    [of "\<lparr>init_args = [], init_kwargs = Map.empty, attname = ''uuid'',
           PrefixShortUUIDField.auto = True, prefix_str = ''uu-''\<rparr>"
        "[''uuid'' \<mapsto> PyNone]" True PyNone 57]
  by (simp add: CharField_pre_save_def getattr_def numeral_3_eq_3)

section \<open>A value once set is kept\<close>

lemma ShortUUIDField_pre_save_keeps:
  assumes "model_instance (attname self) = Some value" and "truthy value"
  shows "ShortUUIDField_pre_save self model_instance add u = Inr (value, model_instance)"
  using assms
  by (simp add: ShortUUIDField_pre_save_def CharField_pre_save_def getattr_def)

lemma PrefixShortUUIDField_pre_save_keeps:
  assumes "model_instance (attname self) = Some value" and "truthy value"
  shows "PrefixShortUUIDField_pre_save self model_instance add u = Inr (value, model_instance)"
  using assms
  by (simp add: PrefixShortUUIDField_pre_save_def CharField_pre_save_def getattr_def)

lemma ShortUUIDField_saves_keep:
  assumes "model_instance (attname self) = Some value" and "truthy value"
  shows "ShortUUIDField_saves self model_instance calls =
           Inr (replicate (length calls) value, model_instance)"
proof (induction calls)
  case Nil
  show ?case by simp
next
  case (Cons c calls)
  obtain add u where c: "c = (add, u)" by (cases c)
  from assms show ?case
    by (simp add: c ShortUUIDField_pre_save_keeps Cons.IH)
qed

lemma PrefixShortUUIDField_saves_keep:
  assumes "model_instance (attname self) = Some value" and "truthy value"
  shows "PrefixShortUUIDField_saves self model_instance calls =
           Inr (replicate (length calls) value, model_instance)"
proof (induction calls)
  case Nil
  show ?case by simp
next
  case (Cons c calls)
  obtain add u where c: "c = (add, u)" by (cases c)
  from assms show ?case
    by (simp add: c PrefixShortUUIDField_pre_save_keeps Cons.IH)
qed

text \<open>
  C2. When the record already holds a non-empty value for the field (a value Python
  counts as true: for a string, a non-empty one), \<^verbatim>\<open>pre_save\<close> of either variant,
  whatever \<^verbatim>\<open>auto\<close> is, returns that value and leaves the record as it was; every
  save of any sequence of saves returns the same value and the record stays unchanged.
\<close>

theorem pre_save_set_once:
  "(model_instance (attname f) = Some value \<and> truthy value \<longrightarrow>
      ShortUUIDField_pre_save f model_instance add u = Inr (value, model_instance)
      \<and> ShortUUIDField_saves f model_instance calls =
          Inr (replicate (length calls) value, model_instance))
   \<and> (model_instance (attname g) = Some value \<and> truthy value \<longrightarrow>
      PrefixShortUUIDField_pre_save g model_instance add u = Inr (value, model_instance)
      \<and> PrefixShortUUIDField_saves g model_instance calls =
          Inr (replicate (length calls) value, model_instance))"
  by (simp add: ShortUUIDField_pre_save_keeps PrefixShortUUIDField_pre_save_keeps
      ShortUUIDField_saves_keep PrefixShortUUIDField_saves_keep)

theorem pre_save_set_once_witness:
  "ShortUUIDField_pre_save
     \<lparr>init_args = [], init_kwargs = Map.empty, attname = ''uuid'', ShortUUIDField.auto = True\<rparr>
     [''uuid'' \<mapsto> PyStr ''abc''] False 5 = Inr (PyStr ''abc'', [''uuid'' \<mapsto> PyStr ''abc''])
   \<and> ShortUUIDField_saves
     \<lparr>init_args = [], init_kwargs = Map.empty, attname = ''uuid'', ShortUUIDField.auto = True\<rparr>
     [''uuid'' \<mapsto> PyStr ''abc''] [(True, 1), (False, 2)] =
       Inr ([PyStr ''abc'', PyStr ''abc''], [''uuid'' \<mapsto> PyStr ''abc''])
   \<and> PrefixShortUUIDField_pre_save
     \<lparr>init_args = [], init_kwargs = Map.empty, attname = ''uuid'',
        PrefixShortUUIDField.auto = True, prefix_str = ''uu-''\<rparr>
     [''uuid'' \<mapsto> PyStr ''abc''] False 5 = Inr (PyStr ''abc'', [''uuid'' \<mapsto> PyStr ''abc''])
   \<and> PrefixShortUUIDField_saves
     \<lparr>init_args = [], init_kwargs = Map.empty, attname = ''uuid'',
        PrefixShortUUIDField.auto = True, prefix_str = ''uu-''\<rparr>
     [''uuid'' \<mapsto> PyStr ''abc''] [(True, 1), (False, 2)] =
       Inr ([PyStr ''abc'', PyStr ''abc''], [''uuid'' \<mapsto> PyStr ''abc''])"
  using pre_save_set_once
    [of "[''uuid'' \<mapsto> PyStr ''abc'']"
        "\<lparr>init_args = [], init_kwargs = Map.empty, attname = ''uuid'',
           ShortUUIDField.auto = True\<rparr>"
        "PyStr ''abc''" False 5 "[(True, 1), (False, 2)]"
        "\<lparr>init_args = [], init_kwargs = Map.empty, attname = ''uuid'',
           PrefixShortUUIDField.auto = True, prefix_str = ''uu-''\<rparr>"]
  by simp

text \<open>
  The first save of an unset record generates the value; the saves that follow keep it.
\<close>

lemma ShortUUIDField_saves_after_generation:
  assumes "ShortUUIDField.auto self"
    and "CharField_pre_save self model_instance add = Inr value"
    and "\<not> truthy value"
  shows "ShortUUIDField_saves self model_instance ((add, u) # calls) =
           Inr (replicate (Suc (length calls)) (PyStr (encode u)),
                model_instance(attname self \<mapsto> PyStr (encode u)))"
proof -
  have "length (encode u) = 22" by (rule length_encode)
  then have "truthy (PyStr (encode u))" by auto
  then have "ShortUUIDField_saves self (model_instance(attname self \<mapsto> PyStr (encode u))) calls =
      Inr (replicate (length calls) (PyStr (encode u)),
           model_instance(attname self \<mapsto> PyStr (encode u)))"
    by (intro ShortUUIDField_saves_keep) simp_all
  with assms show ?thesis
    by (simp add: ShortUUIDField_pre_save_def shortuuid_uuid_def setattr_def Let_def)
qed

lemma PrefixShortUUIDField_saves_after_generation:
  assumes "PrefixShortUUIDField.auto self"
    and "CharField_pre_save self model_instance add = Inr value"
    and "\<not> truthy value"
  shows "PrefixShortUUIDField_saves self model_instance ((add, u) # calls) =
           Inr (replicate (Suc (length calls)) (PyStr (prefix_str self @ take 8 (encode u))),
                model_instance(attname self \<mapsto> PyStr (prefix_str self @ take 8 (encode u))))"
proof -
  let ?v = "PyStr (prefix_str self @ take 8 (encode u))"
  have "length (encode u) = 22" by (rule length_encode)
  then have "take 8 (encode u) \<noteq> []" by auto
  then have "truthy ?v" by simp
  then have "PrefixShortUUIDField_saves self (model_instance(attname self \<mapsto> ?v)) calls =
      Inr (replicate (length calls) ?v, model_instance(attname self \<mapsto> ?v))"
    by (intro PrefixShortUUIDField_saves_keep) simp_all
  with assms show ?thesis
    by (simp add: PrefixShortUUIDField_pre_save_def setattr_def Let_def)
qed

section \<open>Fields without generation\<close>

text \<open>
  C6. With \<^verbatim>\<open>auto\<close> false, \<^verbatim>\<open>pre_save\<close> of either variant generates nothing: it
  returns what the base resolution returns, an empty value included, raises what the base
  resolution raises, and leaves the record unchanged.
\<close>

theorem pre_save_auto_off:
  "(\<not> ShortUUIDField.auto f \<longrightarrow>
      ShortUUIDField_pre_save f model_instance add u =
        (case CharField_pre_save f model_instance add of
           Inl e \<Rightarrow> Inl e
         | Inr value \<Rightarrow> Inr (value, model_instance)))
   \<and> (\<not> PrefixShortUUIDField.auto g \<longrightarrow>
      PrefixShortUUIDField_pre_save g model_instance add u =
        (case CharField_pre_save g model_instance add of
           Inl e \<Rightarrow> Inl e
         | Inr value \<Rightarrow> Inr (value, model_instance)))"
  by (simp add: ShortUUIDField_pre_save_def PrefixShortUUIDField_pre_save_def
      split: sum.split)

theorem pre_save_auto_off_witness:
  "ShortUUIDField_pre_save
     \<lparr>init_args = [], init_kwargs = Map.empty, attname = ''uuid'',
        ShortUUIDField.auto = False\<rparr>
     [''uuid'' \<mapsto> PyStr ''''] True 57 = Inr (PyStr '''', [''uuid'' \<mapsto> PyStr ''''])
   \<and> PrefixShortUUIDField_pre_save
     \<lparr>init_args = [], init_kwargs = Map.empty, attname = ''uuid'',
        PrefixShortUUIDField.auto = False, prefix_str = ''uu-''\<rparr>
     [''uuid'' \<mapsto> PyNone] True 57 = Inr (PyNone, [''uuid'' \<mapsto> PyNone])"
  using pre_save_auto_off
    [of "\<lparr>init_args = [], init_kwargs = Map.empty, attname = ''uuid'',
           ShortUUIDField.auto = False\<rparr>"
        "[''uuid'' \<mapsto> PyStr '''']" True 57
        "\<lparr>init_args = [], init_kwargs = Map.empty, attname = ''uuid'',
           PrefixShortUUIDField.auto = True, prefix_str = ''uu-''\<rparr>"]
    pre_save_auto_off
    [of "\<lparr>init_args = [], init_kwargs = Map.empty, attname = ''uuid'',
           ShortUUIDField.auto = False\<rparr>"
        "[''uuid'' \<mapsto> PyNone]" True 57
        "\<lparr>init_args = [], init_kwargs = Map.empty, attname = ''uuid'',
           PrefixShortUUIDField.auto = False, prefix_str = ''uu-''\<rparr>"]
  by (simp add: CharField_pre_save_def getattr_def)

text \<open>
  C7. \<^verbatim>\<open>formfield\<close> of either variant returns \<^verbatim>\<open>None\<close> when \<^verbatim>\<open>auto\<close> is true,
  and the form field the base field's construction builds from the same options when
  \<^verbatim>\<open>auto\<close> is false.
\<close>

theorem formfield_auto:
  "(ShortUUIDField.auto f \<longrightarrow> ShortUUIDField_formfield super_formfield f kwargs = None)
   \<and> (\<not> ShortUUIDField.auto f \<longrightarrow>
        ShortUUIDField_formfield super_formfield f kwargs = Some (super_formfield f kwargs))
   \<and> (PrefixShortUUIDField.auto g \<longrightarrow>
        PrefixShortUUIDField_formfield super_formfield' g kwargs = None)
   \<and> (\<not> PrefixShortUUIDField.auto g \<longrightarrow>
        PrefixShortUUIDField_formfield super_formfield' g kwargs =
          Some (super_formfield' g kwargs))"
  by (simp add: ShortUUIDField_formfield_def PrefixShortUUIDField_formfield_def)

theorem formfield_auto_witness:
  "ShortUUIDField_formfield (\<lambda>self kwargs. (init_kwargs self ''max_length'', kwargs ''label''))
     \<lparr>init_args = [], init_kwargs = [''max_length'' \<mapsto> PyInt 22], attname = ''uuid'',
        ShortUUIDField.auto = True\<rparr> [''label'' \<mapsto> PyStr ''id''] = None
   \<and> PrefixShortUUIDField_formfield
     (\<lambda>self kwargs. (init_kwargs self ''max_length'', kwargs ''label''))
     \<lparr>init_args = [], init_kwargs = [''max_length'' \<mapsto> PyInt 11], attname = ''uuid'',
        PrefixShortUUIDField.auto = False, prefix_str = ''uu-''\<rparr> [''label'' \<mapsto> PyStr ''id''] =
       Some (Some (PyInt 11), Some (PyStr ''id''))"
  using formfield_auto
    [of "\<lparr>init_args = [], init_kwargs = [''max_length'' \<mapsto> PyInt 22], attname = ''uuid'',
           ShortUUIDField.auto = True\<rparr>"
        "\<lambda>self kwargs. (init_kwargs self ''max_length'', kwargs ''label'')"
        "[''label'' \<mapsto> PyStr ''id'']"
        "\<lparr>init_args = [], init_kwargs = [''max_length'' \<mapsto> PyInt 11], attname = ''uuid'',
           PrefixShortUUIDField.auto = False, prefix_str = ''uu-''\<rparr>"
        "\<lambda>self kwargs. (init_kwargs self ''max_length'', kwargs ''label'')"]
  by simp

section \<open>The insert flag\<close>

text \<open>
  C8. \<^verbatim>\<open>pre_save\<close> of either variant does not depend on the insert flag: two runs on
  the same field, record and random value that differ only in \<^verbatim>\<open>add\<close> return the same
  value and leave the same record, or raise the same error.
\<close>

theorem pre_save_ignores_add:
  "ShortUUIDField_pre_save f model_instance add u =
     ShortUUIDField_pre_save f model_instance add' u
   \<and> PrefixShortUUIDField_pre_save g model_instance add u =
     PrefixShortUUIDField_pre_save g model_instance add' u"
  by (simp add: ShortUUIDField_pre_save_def PrefixShortUUIDField_pre_save_def
      CharField_pre_save_def)

section \<open>Construction\<close>

text \<open>
  C5. The constructors fix the configuration. \<^verbatim>\<open>ShortUUIDField.__init__\<close> stores
  \<^verbatim>\<open>auto\<close> (true when left out) and passes \<^verbatim>\<open>max_length = 22\<close> to the base
  initialiser; \<^verbatim>\<open>PrefixShortUUIDField.__init__\<close> stores \<^verbatim>\<open>auto\<close> and the prefix
  (\<^verbatim>\<open>'uu-'\<close> when left out) and passes \<^verbatim>\<open>max_length = len(prefix) + 8\<close>. When
  \<^verbatim>\<open>auto\<close> is true both pass \<^verbatim>\<open>editable = False\<close> and \<^verbatim>\<open>blank = True\<close>.
\<close>

theorem init_configuration:
  "ShortUUIDField.auto (ShortUUIDField_init self auto_arg args kwargs) =
     (case auto_arg of None \<Rightarrow> True | Some a \<Rightarrow> a)
   \<and> init_kwargs (ShortUUIDField_init self auto_arg args kwargs) ''max_length'' = Some (PyInt 22)
   \<and> (ShortUUIDField.auto (ShortUUIDField_init self auto_arg args kwargs) \<longrightarrow>
        init_kwargs (ShortUUIDField_init self auto_arg args kwargs) ''editable'' =
          Some (PyBool False)
        \<and> init_kwargs (ShortUUIDField_init self auto_arg args kwargs) ''blank'' =
          Some (PyBool True))
   \<and> PrefixShortUUIDField.auto (PrefixShortUUIDField_init pself auto_arg prefix_arg args kwargs) =
     (case auto_arg of None \<Rightarrow> True | Some a \<Rightarrow> a)
   \<and> prefix_str (PrefixShortUUIDField_init pself auto_arg prefix_arg args kwargs) =
     (case prefix_arg of None \<Rightarrow> ''uu-'' | Some p \<Rightarrow> p)
   \<and> init_kwargs (PrefixShortUUIDField_init pself auto_arg prefix_arg args kwargs) ''max_length'' =
     Some (PyInt (int (length
       (prefix_str (PrefixShortUUIDField_init pself auto_arg prefix_arg args kwargs))) + 8))
   \<and> (PrefixShortUUIDField.auto (PrefixShortUUIDField_init pself auto_arg prefix_arg args kwargs) \<longrightarrow>
        init_kwargs (PrefixShortUUIDField_init pself auto_arg prefix_arg args kwargs) ''editable'' =
          Some (PyBool False)
        \<and> init_kwargs (PrefixShortUUIDField_init pself auto_arg prefix_arg args kwargs) ''blank'' =
          Some (PyBool True))"
  by (simp add: ShortUUIDField_init_def PrefixShortUUIDField_init_def CharField_init_def Let_def
      split: option.split)

theorem init_configuration_witness:
  "ShortUUIDField.auto (ShortUUIDField_init
       \<lparr>init_args = [], init_kwargs = Map.empty, attname = ''uuid'',
          ShortUUIDField.auto = False\<rparr> None [] Map.empty)
   \<and> init_kwargs (ShortUUIDField_init
       \<lparr>init_args = [], init_kwargs = Map.empty, attname = ''uuid'',
          ShortUUIDField.auto = False\<rparr> None [] Map.empty) ''max_length'' = Some (PyInt 22)
   \<and> init_kwargs (ShortUUIDField_init
       \<lparr>init_args = [], init_kwargs = Map.empty, attname = ''uuid'',
          ShortUUIDField.auto = False\<rparr> None [] Map.empty) ''editable'' = Some (PyBool False)
   \<and> init_kwargs (ShortUUIDField_init
       \<lparr>init_args = [], init_kwargs = Map.empty, attname = ''uuid'',
          ShortUUIDField.auto = False\<rparr> None [] Map.empty) ''blank'' = Some (PyBool True)
   \<and> prefix_str (PrefixShortUUIDField_init
       \<lparr>init_args = [], init_kwargs = Map.empty, attname = ''uuid'',
          PrefixShortUUIDField.auto = False, prefix_str = []\<rparr> None None [] Map.empty) = ''uu-''
   \<and> init_kwargs (PrefixShortUUIDField_init
       \<lparr>init_args = [], init_kwargs = Map.empty, attname = ''uuid'',
          PrefixShortUUIDField.auto = False, prefix_str = []\<rparr> None None [] Map.empty)
        ''max_length'' = Some (PyInt 11)
   \<and> init_kwargs (PrefixShortUUIDField_init
       \<lparr>init_args = [], init_kwargs = Map.empty, attname = ''uuid'',
          PrefixShortUUIDField.auto = False, prefix_str = []\<rparr> None None [] Map.empty)
        ''editable'' = Some (PyBool False)
   \<and> init_kwargs (PrefixShortUUIDField_init
       \<lparr>init_args = [], init_kwargs = Map.empty, attname = ''uuid'',
          PrefixShortUUIDField.auto = False, prefix_str = []\<rparr> None None [] Map.empty)
        ''blank'' = Some (PyBool True)"
  using init_configuration
    [of "\<lparr>init_args = [], init_kwargs = Map.empty, attname = ''uuid'',
           ShortUUIDField.auto = False\<rparr>" None "[]" Map.empty
        "\<lparr>init_args = [], init_kwargs = Map.empty, attname = ''uuid'',
           PrefixShortUUIDField.auto = False, prefix_str = []\<rparr>" None]
  by simp

text \<open>
  C10. Whatever the caller passes by keyword, the constructors overwrite it. For every
  \<^verbatim>\<open>kwargs\<close> that already holds a caller's \<^verbatim>\<open>max_length\<close>, \<^verbatim>\<open>editable\<close> and
  \<^verbatim>\<open>blank\<close>, the base initialiser receives \<^verbatim>\<open>max_length = 22\<close> from the plain
  variant and \<^verbatim>\<open>max_length = len(prefix) + 8\<close> from the prefixed one, and, when
  \<^verbatim>\<open>auto\<close> is true (given, or by default), \<^verbatim>\<open>editable = False\<close> and
  \<^verbatim>\<open>blank = True\<close>; the caller's values have no effect on the constructed field. Only
  with \<^verbatim>\<open>auto\<close> false do the caller's \<^verbatim>\<open>editable\<close> and \<^verbatim>\<open>blank\<close> reach the base
  initialiser.
\<close>

theorem init_overrides_kwargs:
  "init_kwargs (ShortUUIDField_init self auto_arg args
       (kwargs(''max_length'' \<mapsto> m, ''editable'' \<mapsto> e, ''blank'' \<mapsto> b))) ''max_length'' =
     Some (PyInt 22)
   \<and> init_kwargs (ShortUUIDField_init self (Some True) args
       (kwargs(''max_length'' \<mapsto> m, ''editable'' \<mapsto> e, ''blank'' \<mapsto> b))) ''editable'' =
     Some (PyBool False)
   \<and> init_kwargs (ShortUUIDField_init self (Some True) args
       (kwargs(''max_length'' \<mapsto> m, ''editable'' \<mapsto> e, ''blank'' \<mapsto> b))) ''blank'' =
     Some (PyBool True)
   \<and> init_kwargs (ShortUUIDField_init self None args
       (kwargs(''max_length'' \<mapsto> m, ''editable'' \<mapsto> e, ''blank'' \<mapsto> b))) ''editable'' =
     Some (PyBool False)
   \<and> init_kwargs (ShortUUIDField_init self None args
       (kwargs(''max_length'' \<mapsto> m, ''editable'' \<mapsto> e, ''blank'' \<mapsto> b))) ''blank'' =
     Some (PyBool True)
   \<and> init_kwargs (ShortUUIDField_init self (Some False) args
       (kwargs(''max_length'' \<mapsto> m, ''editable'' \<mapsto> e, ''blank'' \<mapsto> b))) ''editable'' =
     Some e
   \<and> init_kwargs (ShortUUIDField_init self (Some False) args
       (kwargs(''max_length'' \<mapsto> m, ''editable'' \<mapsto> e, ''blank'' \<mapsto> b))) ''blank'' =
     Some b
   \<and> init_kwargs (PrefixShortUUIDField_init pself auto_arg prefix_arg args
       (kwargs(''max_length'' \<mapsto> m, ''editable'' \<mapsto> e, ''blank'' \<mapsto> b))) ''max_length'' =
     Some (PyInt (int (length (case prefix_arg of None \<Rightarrow> ''uu-'' | Some p \<Rightarrow> p)) + 8))
   \<and> init_kwargs (PrefixShortUUIDField_init pself (Some True) prefix_arg args
       (kwargs(''max_length'' \<mapsto> m, ''editable'' \<mapsto> e, ''blank'' \<mapsto> b))) ''editable'' =
     Some (PyBool False)
   \<and> init_kwargs (PrefixShortUUIDField_init pself (Some True) prefix_arg args
       (kwargs(''max_length'' \<mapsto> m, ''editable'' \<mapsto> e, ''blank'' \<mapsto> b))) ''blank'' =
     Some (PyBool True)
   \<and> init_kwargs (PrefixShortUUIDField_init pself None prefix_arg args
       (kwargs(''max_length'' \<mapsto> m, ''editable'' \<mapsto> e, ''blank'' \<mapsto> b))) ''editable'' =
     Some (PyBool False)
   \<and> init_kwargs (PrefixShortUUIDField_init pself None prefix_arg args
       (kwargs(''max_length'' \<mapsto> m, ''editable'' \<mapsto> e, ''blank'' \<mapsto> b))) ''blank'' =
     Some (PyBool True)
   \<and> init_kwargs (PrefixShortUUIDField_init pself (Some False) prefix_arg args
       (kwargs(''max_length'' \<mapsto> m, ''editable'' \<mapsto> e, ''blank'' \<mapsto> b))) ''editable'' =
     Some e
   \<and> init_kwargs (PrefixShortUUIDField_init pself (Some False) prefix_arg args
       (kwargs(''max_length'' \<mapsto> m, ''editable'' \<mapsto> e, ''blank'' \<mapsto> b))) ''blank'' =
     Some b
   \<and> ShortUUIDField_init self auto_arg args (kwargs(''max_length'' \<mapsto> m)) =
     ShortUUIDField_init self auto_arg args kwargs
   \<and> ShortUUIDField_init self (Some True) args
       (kwargs(''max_length'' \<mapsto> m, ''editable'' \<mapsto> e, ''blank'' \<mapsto> b)) =
     ShortUUIDField_init self (Some True) args kwargs
   \<and> ShortUUIDField_init self None args
       (kwargs(''max_length'' \<mapsto> m, ''editable'' \<mapsto> e, ''blank'' \<mapsto> b)) =
     ShortUUIDField_init self None args kwargs
   \<and> PrefixShortUUIDField_init pself auto_arg prefix_arg args (kwargs(''max_length'' \<mapsto> m)) =
     PrefixShortUUIDField_init pself auto_arg prefix_arg args kwargs
   \<and> PrefixShortUUIDField_init pself (Some True) prefix_arg args
       (kwargs(''max_length'' \<mapsto> m, ''editable'' \<mapsto> e, ''blank'' \<mapsto> b)) =
     PrefixShortUUIDField_init pself (Some True) prefix_arg args kwargs
   \<and> PrefixShortUUIDField_init pself None prefix_arg args
       (kwargs(''max_length'' \<mapsto> m, ''editable'' \<mapsto> e, ''blank'' \<mapsto> b)) =
     PrefixShortUUIDField_init pself None prefix_arg args kwargs"
proof -
  have plain: "init_kwargs (ShortUUIDField_init self a args k) =
      (if (case a of None \<Rightarrow> True | Some x \<Rightarrow> x)
       then k(''max_length'' \<mapsto> PyInt 22, ''editable'' \<mapsto> PyBool False,
              ''blank'' \<mapsto> PyBool True)
       else k(''max_length'' \<mapsto> PyInt 22))" for a k
    by (simp add: ShortUUIDField_init_def CharField_init_def Let_def)
  have prefixed: "init_kwargs (PrefixShortUUIDField_init pself a prefix_arg args k) =
      (if (case a of None \<Rightarrow> True | Some x \<Rightarrow> x)
       then k(''max_length'' \<mapsto>
                PyInt (int (length (case prefix_arg of None \<Rightarrow> ''uu-'' | Some p \<Rightarrow> p)) + 8),
              ''editable'' \<mapsto> PyBool False, ''blank'' \<mapsto> PyBool True)
       else k(''max_length'' \<mapsto>
                PyInt (int (length (case prefix_arg of None \<Rightarrow> ''uu-'' | Some p \<Rightarrow> p)) + 8)))"
    for a k
    by (simp add: PrefixShortUUIDField_init_def CharField_init_def Let_def)
  have forced: "init_kwargs (ShortUUIDField_init self auto_arg args
       (kwargs(''max_length'' \<mapsto> m, ''editable'' \<mapsto> e, ''blank'' \<mapsto> b))) ''max_length'' =
     Some (PyInt 22)"
    "init_kwargs (PrefixShortUUIDField_init pself auto_arg prefix_arg args
       (kwargs(''max_length'' \<mapsto> m, ''editable'' \<mapsto> e, ''blank'' \<mapsto> b))) ''max_length'' =
     Some (PyInt (int (length (case prefix_arg of None \<Rightarrow> ''uu-'' | Some p \<Rightarrow> p)) + 8))"
    by (simp_all add: plain prefixed)
  have same: "ShortUUIDField_init self auto_arg args (kwargs(''max_length'' \<mapsto> m)) =
     ShortUUIDField_init self auto_arg args kwargs"
    "ShortUUIDField_init self (Some True) args
       (kwargs(''max_length'' \<mapsto> m, ''editable'' \<mapsto> e, ''blank'' \<mapsto> b)) =
     ShortUUIDField_init self (Some True) args kwargs"
    "ShortUUIDField_init self None args
       (kwargs(''max_length'' \<mapsto> m, ''editable'' \<mapsto> e, ''blank'' \<mapsto> b)) =
     ShortUUIDField_init self None args kwargs"
    "PrefixShortUUIDField_init pself auto_arg prefix_arg args (kwargs(''max_length'' \<mapsto> m)) =
     PrefixShortUUIDField_init pself auto_arg prefix_arg args kwargs"
    "PrefixShortUUIDField_init pself (Some True) prefix_arg args
       (kwargs(''max_length'' \<mapsto> m, ''editable'' \<mapsto> e, ''blank'' \<mapsto> b)) =
     PrefixShortUUIDField_init pself (Some True) prefix_arg args kwargs"
    "PrefixShortUUIDField_init pself None prefix_arg args
       (kwargs(''max_length'' \<mapsto> m, ''editable'' \<mapsto> e, ''blank'' \<mapsto> b)) =
     PrefixShortUUIDField_init pself None prefix_arg args kwargs"
    by (simp_all add: ShortUUIDField_init_def PrefixShortUUIDField_init_def CharField_init_def
        Let_def fun_upd_twist)
  show ?thesis
    unfolding forced same
    by (simp add: plain prefixed)
qed

section \<open>Optional registration with South\<close>

text \<open>
  C9. When South is not installed, so that the import raises \<^verbatim>\<open>ImportError\<close>, the
  module's initialisation raises nothing and registers nothing. Whatever the outcome of
  the import and of the registrations, an \<^verbatim>\<open>ImportError\<close> never leaves the module.
\<close>

theorem module_init_without_south:
  "module_init (Inl ImportError) reg = (None, reg)
   \<and> fst (module_init import_south reg) \<noteq> Some ImportError"
  by (simp add: module_init_def try_body_def split: prod.split option.split sum.split)

end
